theory Spec2Isabelle
  imports Main
begin

section \<open>The build configuration header \<open>src/build/config.h\<close>\<close>

text \<open>
  The header consists of preprocessor lines only. It is embedded as the list of its lines,
  in file order, and given meaning by a small model of the C preprocessor: a macro table
  (identifier to replacement list) and the nesting depth of the conditional group that is
  being skipped, if any.
\<close>

subsection \<open>Preprocessor lines and their effect\<close>

text \<open>
  The only preprocessing token that occurs in a replacement list of this header is a
  string literal; \<open>#define WITH_DBUS\<close> has the empty replacement list.
\<close>

datatype token = StringLit string

datatype directive =
    Ifndef string
  | Define string "token list"
  | Undef string
  | Endif
  | Comment string
  | Blank

type_synonym macros = "string \<rightharpoonup> token list"

record pp_state =
  macros :: macros
  skipping :: nat

text \<open>
  \<open>skipping s = 0\<close>: lines are processed. \<open>skipping s = Suc d\<close>: the preprocessor is inside
  a conditional group whose condition was false, with \<open>d\<close> further conditionals opened
  inside it; only \<open>#ifndef\<close> and \<open>#endif\<close> are looked at there.
\<close>

fun directive_step :: "directive \<Rightarrow> pp_state \<Rightarrow> pp_state" where
  "directive_step (Ifndef n) s =
     (if 0 < skipping s then s\<lparr>skipping := Suc (skipping s)\<rparr>
      else if macros s n \<noteq> None then s\<lparr>skipping := Suc 0\<rparr>
      else s)"
| "directive_step (Define n body) s =
     (if 0 < skipping s then s else s\<lparr>macros := (macros s)(n \<mapsto> body)\<rparr>)"
| "directive_step (Undef n) s =
     (if 0 < skipping s then s else s\<lparr>macros := (macros s)(n := None)\<rparr>)"
| "directive_step Endif s =
     (if 0 < skipping s then s\<lparr>skipping := skipping s - 1\<rparr> else s)"
| "directive_step (Comment c) s = s"
| "directive_step Blank s = s"

primrec preprocess :: "directive list \<Rightarrow> pp_state \<Rightarrow> pp_state" where
  "preprocess [] s = s"
| "preprocess (d # ds) s = preprocess ds (directive_step d s)"

subsection \<open>The header\<close>

text \<open>
  One entry per line of \<open>config.h\<close>. Line 11, \<open>/* #undef WITH_XCB_ERRORS */\<close>, is a comment,
  not a directive. The comment that follows \<open>#endif\<close> on line 14 is dropped.
\<close>

definition config_h :: "directive list" where
  "config_h =
    [ Ifndef ''_CONFIG_H_'',
      Define ''_CONFIG_H_'' [],
      Blank,
      Define ''AWESOME_LUA_LIB_PATH'' [StringLit ''/usr/share/awesome/lib''],
      Define ''XDG_CONFIG_DIR'' [StringLit ''/etc/xdg''],
      Define ''AWESOME_THEMES_PATH'' [StringLit ''/usr/share/awesome/themes''],
      Define ''AWESOME_ICON_PATH'' [StringLit ''/usr/share/awesome/icons''],
      Define ''AWESOME_DEFAULT_CONF'' [StringLit ''/etc/xdg/awesome/rc.lua''],
      Blank,
      Define ''WITH_DBUS'' [],
      Comment '' #undef WITH_XCB_ERRORS '',
      Define ''HAS_EXECINFO'' [],
      Blank,
      Endif,
      Blank,
      Comment '' vim: filetype=c:expandtab:shiftwidth=4:tabstop=8:softtabstop=4:textwidth=80'' ]"

text \<open>Including the header at top level of a translation unit whose macro table is \<open>env\<close>.\<close>

definition include_config_h :: "macros \<Rightarrow> macros" where
  "include_config_h env = macros (preprocess config_h \<lparr>macros = env, skipping = 0\<rparr>)"

text \<open>The macro table a consumer sees: the header included into an empty table.\<close>

definition config :: macros where
  "config = include_config_h Map.empty"

subsection \<open>What a consumer reads\<close>

text \<open>
  A path constant is used as a C expression: the macro has to expand to a string literal,
  whose contents are the value. An identifier that is no macro, or a macro that expands to
  nothing, gives no value (the consumer does not compile).

  A feature flag is tested with \<open>#ifdef\<close>: it is true exactly when the macro is defined.
\<close>

definition string_macro :: "string \<Rightarrow> macros \<Rightarrow> string option" where
  "string_macro n env =
     (case env n of
        Some [StringLit s] \<Rightarrow> Some s
      | _ \<Rightarrow> None)"

definition ifdef :: "string \<Rightarrow> macros \<Rightarrow> bool" where
  "ifdef n env = (env n \<noteq> None)"

text \<open>
  The eight keys of the configuration, under the names of their macros:
  library path, system config directory, themes path, icon path, default config file,
  messaging-bus integration enabled, low-level display-error-names integration enabled,
  stack-trace capture available.
\<close>

datatype key =
    AWESOME_LUA_LIB_PATH
  | XDG_CONFIG_DIR
  | AWESOME_THEMES_PATH
  | AWESOME_ICON_PATH
  | AWESOME_DEFAULT_CONF
  | WITH_DBUS
  | WITH_XCB_ERRORS
  | HAS_EXECINFO

fun macro_name :: "key \<Rightarrow> string" where
  "macro_name AWESOME_LUA_LIB_PATH = ''AWESOME_LUA_LIB_PATH''"
| "macro_name XDG_CONFIG_DIR = ''XDG_CONFIG_DIR''"
| "macro_name AWESOME_THEMES_PATH = ''AWESOME_THEMES_PATH''"
| "macro_name AWESOME_ICON_PATH = ''AWESOME_ICON_PATH''"
| "macro_name AWESOME_DEFAULT_CONF = ''AWESOME_DEFAULT_CONF''"
| "macro_name WITH_DBUS = ''WITH_DBUS''"
| "macro_name WITH_XCB_ERRORS = ''WITH_XCB_ERRORS''"
| "macro_name HAS_EXECINFO = ''HAS_EXECINFO''"

fun is_flag :: "key \<Rightarrow> bool" where
  "is_flag WITH_DBUS = True"
| "is_flag WITH_XCB_ERRORS = True"
| "is_flag HAS_EXECINFO = True"
| "is_flag _ = False"

datatype cvalue = Str string | Flag bool

definition config_lookup :: "key \<Rightarrow> macros \<Rightarrow> cvalue option" where
  "config_lookup k env =
     (if is_flag k then Some (Flag (ifdef (macro_name k) env))
      else map_option Str (string_macro (macro_name k) env))"

section \<open>The macro table of the header\<close>

lemma config_table:
  "config =
     [ ''_CONFIG_H_'' \<mapsto> [],
       ''AWESOME_LUA_LIB_PATH'' \<mapsto> [StringLit ''/usr/share/awesome/lib''],
       ''XDG_CONFIG_DIR'' \<mapsto> [StringLit ''/etc/xdg''],
       ''AWESOME_THEMES_PATH'' \<mapsto> [StringLit ''/usr/share/awesome/themes''],
       ''AWESOME_ICON_PATH'' \<mapsto> [StringLit ''/usr/share/awesome/icons''],
       ''AWESOME_DEFAULT_CONF'' \<mapsto> [StringLit ''/etc/xdg/awesome/rc.lua''],
       ''WITH_DBUS'' \<mapsto> [],
       ''HAS_EXECINFO'' \<mapsto> [] ]"
  by (simp add: config_def include_config_h_def config_h_def)

lemma string_macro_config:
  "string_macro ''AWESOME_LUA_LIB_PATH'' config = Some ''/usr/share/awesome/lib''"
  "string_macro ''XDG_CONFIG_DIR'' config = Some ''/etc/xdg''"
  "string_macro ''AWESOME_THEMES_PATH'' config = Some ''/usr/share/awesome/themes''"
  "string_macro ''AWESOME_ICON_PATH'' config = Some ''/usr/share/awesome/icons''"
  "string_macro ''AWESOME_DEFAULT_CONF'' config = Some ''/etc/xdg/awesome/rc.lua''"
  by (simp_all add: string_macro_def config_table)

lemma ifdef_config:
  "ifdef ''WITH_DBUS'' config = True"
  "ifdef ''WITH_XCB_ERRORS'' config = False"
  "ifdef ''HAS_EXECINFO'' config = True"
  by (simp_all add: ifdef_def config_table)

section \<open>Claims\<close>

text \<open>
  C1. A consumer reading the default config file constant receives exactly the string
  \<open>/etc/xdg/awesome/rc.lua\<close>.
\<close>

theorem C1_default_conf:
  "config_lookup AWESOME_DEFAULT_CONF config = Some (Str ''/etc/xdg/awesome/rc.lua'')"
  by (simp add: config_lookup_def string_macro_config)



text \<open>
  C3. The library path is \<open>/usr/share/awesome/lib\<close>, the system config directory is
  \<open>/etc/xdg\<close>, the themes path is \<open>/usr/share/awesome/themes\<close> and the icon path is
  \<open>/usr/share/awesome/icons\<close>.
\<close>

theorem C3_path_values:
  "config_lookup AWESOME_LUA_LIB_PATH config = Some (Str ''/usr/share/awesome/lib'') \<and>
   config_lookup XDG_CONFIG_DIR config = Some (Str ''/etc/xdg'') \<and>
   config_lookup AWESOME_THEMES_PATH config = Some (Str ''/usr/share/awesome/themes'') \<and>
   config_lookup AWESOME_ICON_PATH config = Some (Str ''/usr/share/awesome/icons'')"
  by (simp add: config_lookup_def string_macro_config)

text \<open>
  C4. Messaging-bus integration is enabled, low-level display-error-names integration is
  not enabled, and stack-trace capture is available.
\<close>

theorem C4_flag_values:
  "config_lookup WITH_DBUS config = Some (Flag True) \<and>
   config_lookup WITH_XCB_ERRORS config = Some (Flag False) \<and>
   config_lookup HAS_EXECINFO config = Some (Flag True)"
  by (simp add: config_lookup_def ifdef_config)

text \<open>
  C5. For every key the lookup returns a value: there is no key whose lookup fails or whose
  value is absent.
\<close>

theorem C5_lookup_total:
  "\<exists>v. config_lookup k config = Some v"
  by (cases k) (simp_all add: config_lookup_def string_macro_config)

text \<open>
  C6. For every path key (library path, system config directory, themes path, icon path,
  default config file) the string returned is not empty.
\<close>

theorem C6_paths_nonempty:
  "\<not> is_flag k \<Longrightarrow> \<exists>s. config_lookup k config = Some (Str s) \<and> s \<noteq> []"
  by (cases k) (simp_all add: config_lookup_def string_macro_config)

theorem C6_paths_nonempty_witness:
  "\<not> is_flag XDG_CONFIG_DIR \<and>
     (\<exists>s. config_lookup XDG_CONFIG_DIR config = Some (Str s) \<and> s \<noteq> [])"
proof -
  have h: "\<not> is_flag XDG_CONFIG_DIR" by simp
  show ?thesis by (rule conjI [OF h C6_paths_nonempty [OF h]])
qed

section \<open>Including the header again\<close>

text \<open>
  The header has no \<open>#undef\<close> and defines each name once, and its include guard makes a
  second inclusion skip every line: nothing in it changes a macro once the header has been
  processed.
\<close>

lemma include_config_h_guarded:
  "env ''_CONFIG_H_'' \<noteq> None \<Longrightarrow> include_config_h env = env"
  by (simp add: include_config_h_def config_h_def)

lemma include_config_h_sets_guard:
  "include_config_h env ''_CONFIG_H_'' \<noteq> None"
  by (cases "env ''_CONFIG_H_''") (simp_all add: include_config_h_def config_h_def)

lemma include_config_h_idem:
  "include_config_h (include_config_h env) = include_config_h env"
  using include_config_h_sets_guard [of env]
  by (rule include_config_h_guarded)

lemma include_config_h_funpow:
  "(include_config_h ^^ n) config = config"
proof (induction n)
  case 0
  show ?case by simp
next
  case (Suc n)
  have "include_config_h config = config"
    unfolding config_def by (rule include_config_h_idem)
  with Suc show ?case by simp
qed

text \<open>
  C7. Any two reads of a key return identical values: wherever the two reads stand in the
  translation unit, after \<open>m\<close> and after \<open>n\<close> further inclusions of the header, the macro
  table they read is the one built by the first inclusion, which nothing changes.
\<close>

theorem C7_reads_identical:
  "config_lookup k ((include_config_h ^^ m) config) =
   config_lookup k ((include_config_h ^^ n) config)"
  by (simp only: include_config_h_funpow)

text \<open>
  C8. The default config file is the system config directory followed by
  \<open>/awesome/rc.lua\<close>.
\<close>

theorem C8_default_conf_under_xdg:
  "\<exists>d. config_lookup XDG_CONFIG_DIR config = Some (Str d) \<and>
       config_lookup AWESOME_DEFAULT_CONF config = Some (Str (d @ ''/awesome/rc.lua''))"
  by (simp add: config_lookup_def string_macro_config)

text \<open>
  C9. The library path, the themes path and the icon path are the directory prefix
  \<open>/usr/share/awesome/\<close> followed by one final path segment, \<open>lib\<close>, \<open>themes\<close> and \<open>icons\<close>
  respectively (a segment holds no \<open>/\<close>).
\<close>

theorem C9_common_prefix:
  "config_lookup AWESOME_LUA_LIB_PATH config = Some (Str (''/usr/share/awesome/'' @ ''lib'')) \<and>
   config_lookup AWESOME_THEMES_PATH config = Some (Str (''/usr/share/awesome/'' @ ''themes'')) \<and>
   config_lookup AWESOME_ICON_PATH config = Some (Str (''/usr/share/awesome/'' @ ''icons'')) \<and>
   CHR ''/'' \<notin> set ''lib'' \<and> CHR ''/'' \<notin> set ''themes'' \<and> CHR ''/'' \<notin> set ''icons''"
  by (simp add: config_lookup_def string_macro_config)

text \<open>
  C10. Every path constant is an absolute path: it begins with \<open>/\<close> and does not end
  with \<open>/\<close>.
\<close>

theorem C10_paths_absolute:
  "\<not> is_flag k \<Longrightarrow>
     \<exists>s. config_lookup k config = Some (Str s) \<and> s \<noteq> [] \<and>
         hd s = CHR ''/'' \<and> last s \<noteq> CHR ''/''"
  by (cases k) (simp_all add: config_lookup_def string_macro_config)

theorem C10_paths_absolute_witness:
  "\<not> is_flag AWESOME_ICON_PATH \<and>
     (\<exists>s. config_lookup AWESOME_ICON_PATH config = Some (Str s) \<and> s \<noteq> [] \<and>
          hd s = CHR ''/'' \<and> last s \<noteq> CHR ''/'')"
proof -
  have h: "\<not> is_flag AWESOME_ICON_PATH" by simp
  show ?thesis by (rule conjI [OF h C10_paths_absolute [OF h]])
qed

end
